theory Spec2Isabelle
  imports Complex_Main
begin

section \<open>The dummy embedding dimensionality reduction model\<close>

text \<open>
  The source is one Python class,
  \<^verbatim>\<open>DummyEmbeddingDimensionalityReductionModel\<close>, with a constructor and the three
  methods \<^verbatim>\<open>build\<close>, \<^verbatim>\<open>predict\<close> and \<^verbatim>\<open>dispose\<close>.
  An embedding is a 1-D array; no method does arithmetic on its elements, so the element
  type is left as a type variable and an array is the list of its elements.
\<close>

subsection \<open>Object state\<close>

text \<open>
  The constructor assigns exactly one attribute and does not call the constructor of the
  base class, so an instance is a record with this one field. The stored size is a Python
  integer: unbounded, and of either sign, since nothing validates it.
\<close>

record model =
  reduced_embedding_size :: int

datatype py_error = TypeError

text \<open>What a call returns: \<^verbatim>\<open>None\<close> or an array.\<close>

datatype 'a result = NoneV | Array "'a list"

subsection \<open>Slicing\<close>

text \<open>
  The slice \<^verbatim>\<open>xs[:stop]\<close> has start 0 and step 1. Python adjusts the stop index
  against the length: a negative stop counts from the end and is raised to 0 when it is
  still negative, a stop beyond the end is lowered to the length.
\<close>

definition slice_stop :: "int \<Rightarrow> int \<Rightarrow> int" where
  "slice_stop stop len =
     (if stop < 0 then (let s = stop + len in if s < 0 then 0 else s)
      else if stop \<ge> len then len
      else stop)"

definition slice_to :: "'a list \<Rightarrow> int \<Rightarrow> 'a list" where
  "slice_to xs stop = take (nat (slice_stop stop (int (length xs)))) xs"

subsection \<open>The method bodies\<close>

text \<open>\<^verbatim>\<open>self.reduced_embedding_size = reduced_embedding_size\<close>\<close>

definition init :: "int \<Rightarrow> model" where
  "init n = \<lparr>reduced_embedding_size = n\<rparr>"

text \<open>\<^verbatim>\<open>def build(self): pass\<close>\<close>

definition build :: "model \<Rightarrow> model" where
  "build self = self"

text \<open>
  \<^verbatim>\<open>return embedding[:self.reduced_embedding_size]\<close>. The body has no assignment, so
  the frame it runs in (the instance and the argument) is handed back as it was, next to
  the returned value.
\<close>

definition predict_frame :: "model \<Rightarrow> 'a list \<Rightarrow> (model \<times> 'a list) \<times> 'a list" where
  "predict_frame self embedding =
     ((self, embedding), slice_to embedding (reduced_embedding_size self))"

definition predict :: "model \<Rightarrow> 'a list \<Rightarrow> 'a list" where
  "predict self embedding = snd (predict_frame self embedding)"

text \<open>\<^verbatim>\<open>def dispose(): pass\<close>: the function takes no parameter at all.\<close>

definition dispose :: "unit \<Rightarrow> unit" where
  "dispose u = ()"

subsection \<open>Calls on an instance\<close>

text \<open>
  A call \<^verbatim>\<open>m.f(a1, ..., ak)\<close> passes the instance as the first positional argument,
  so it reaches the body only when \<^verbatim>\<open>f\<close> declares \<open>k + 1\<close> parameters (none of the
  methods has defaults or a starred parameter); otherwise Python raises
  \<^verbatim>\<open>TypeError\<close> before the body runs.
\<close>

datatype 'a call = Build | Predict "'a list" | Dispose

fun declared_params :: "'a call \<Rightarrow> nat" where
  "declared_params Build = 1"
| "declared_params (Predict e) = 2"
| "declared_params Dispose = 0"

fun supplied_args :: "'a call \<Rightarrow> nat" where
  "supplied_args Build = 0"
| "supplied_args (Predict e) = 1"
| "supplied_args Dispose = 0"

fun body :: "model \<Rightarrow> 'a call \<Rightarrow> model \<times> 'a result" where
  "body self Build = (build self, NoneV)"
| "body self (Predict e) = (fst (fst (predict_frame self e)), Array (predict self e))"
| "body self Dispose = (case dispose () of () \<Rightarrow> (self, NoneV))"

definition invoke :: "model \<Rightarrow> 'a call \<Rightarrow> model \<times> (py_error + 'a result)" where
  "invoke self c =
     (if declared_params c = Suc (supplied_args c)
      then (case body self c of (self', r) \<Rightarrow> (self', Inr r))
      else (self, Inl TypeError))"

text \<open>
  A sequence of calls on one instance, each outcome recorded (the caller catches an
  exception and goes on).
\<close>

fun run :: "model \<Rightarrow> 'a call list \<Rightarrow> model \<times> (py_error + 'a result) list" where
  "run self [] = (self, [])"
| "run self (c # cs) =
     (case invoke self c of (self', r) \<Rightarrow>
        (case run self' cs of (self'', rs) \<Rightarrow> (self'', r # rs)))"

fun is_build :: "'a call \<Rightarrow> bool" where
  "is_build Build = True"
| "is_build (Predict e) = False"
| "is_build Dispose = False"

subsection \<open>Construction\<close>

text \<open>
  Modelled from the spec: the base class \<^verbatim>\<open>EmbeddingDimensionalityReductionModel\<close> is
  imported from a module that is not part of the source. The spec gives it as the
  capability set build, predict, dispose; these are the names a subclass has to define
  before it can be instantiated.
\<close>

definition base_abstract_methods :: "string list" where
  "base_abstract_methods = [''build'', ''predict'', ''dispose'']"

text \<open>The names the class body defines.\<close>

definition class_methods :: "string list" where
  "class_methods = [''__init__'', ''build'', ''predict'', ''dispose'']"

text \<open>
  \<^verbatim>\<open>DummyEmbeddingDimensionalityReductionModel(n)\<close>: instantiation is refused while an
  abstract method is left undefined; then \<^verbatim>\<open>__init__(self, reduced_embedding_size)\<close>,
  which declares two parameters, is called with the new object and the one argument.
\<close>

definition init_params :: nat where
  "init_params = 2"

definition instantiate :: "int \<Rightarrow> py_error + model" where
  "instantiate n =
     (if filter (\<lambda>name. name \<notin> set class_methods) base_abstract_methods \<noteq> [] then Inl TypeError
      else if init_params = Suc 1 then Inr (init n)
      else Inl TypeError)"

section \<open>Properties\<close>

subsection \<open>Slicing\<close>

lemma slice_stop_nonneg: "0 \<le> stop \<Longrightarrow> 0 \<le> len \<Longrightarrow> slice_stop stop len = min stop len"
  by (simp add: slice_stop_def min_def)

lemma slice_stop_neg: "stop < 0 \<Longrightarrow> slice_stop stop len = max 0 (len + stop)"
  by (simp add: slice_stop_def Let_def max_def add.commute)

lemma predict_slice: "predict self e = slice_to e (reduced_embedding_size self)"
  by (simp add: predict_def predict_frame_def)

lemma predict_nonneg:
  "0 \<le> reduced_embedding_size self \<Longrightarrow> predict self e = take (nat (reduced_embedding_size self)) e"
  by (simp add: predict_slice slice_to_def slice_stop_nonneg min_def)

lemma predict_neg:
  "reduced_embedding_size self < 0 \<Longrightarrow>
   predict self e = take (nat (max 0 (int (length e) + reduced_embedding_size self))) e"
  by (simp add: predict_slice slice_to_def slice_stop_neg)

subsection \<open>Calls\<close>

lemma invoke_Build: "invoke self Build = (self, Inr NoneV)"
  by (simp add: invoke_def build_def)

lemma invoke_Predict: "invoke self (Predict e) = (self, Inr (Array (predict self e)))"
  by (simp add: invoke_def predict_frame_def)

lemma invoke_Dispose: "invoke self Dispose = (self, Inl TypeError)"
  by (simp add: invoke_def)

lemma invoke_state: "fst (invoke self c) = self"
  by (cases c) (simp_all add: invoke_Build invoke_Predict invoke_Dispose)

lemma run_state: "fst (run self cs) = self"
proof (induction cs)
  case Nil
  show ?case by simp
next
  case (Cons c cs)
  obtain r where r: "invoke self c = (self, r)"
    using invoke_state [of self c] by (cases "invoke self c") simp
  with Cons show ?case
    by (auto split: prod.splits)
qed

lemma run_results: "snd (run self cs) = map (\<lambda>c. snd (invoke self c)) cs"
proof (induction cs)
  case Nil
  show ?case by simp
next
  case (Cons c cs)
  obtain r where r: "invoke self c = (self, r)"
    using invoke_state [of self c] by (cases "invoke self c") simp
  with Cons show ?case
    by (auto split: prod.splits)
qed

lemma build_funpow: "(build ^^ n) self = self"
  by (induction n) (simp_all add: build_def)

subsection \<open>Lists\<close>

lemma rev_drop_rev: "rev (drop n (rev xs)) = take (length xs - n) xs"
  by (simp add: rev_drop)

lemma zip_map_filter:
  "map snd (filter (\<lambda>(c, r). P c) (zip cs (map f cs))) = map f (filter P cs)"
  by (induction cs) simp_all

section \<open>The claims\<close>

subsection \<open>Length of the output\<close>

text \<open>
  C1, as amended: for every embedding and every non-negative stored size, the length of
  \<open>predict\<close>'s output is the minimum of the stored size and the length of the input.
  For a negative stored size the equation cannot hold (a length is never negative), and the
  slice then drops elements from the end instead.
\<close>

theorem predict_length_nonneg:
  "0 \<le> reduced_embedding_size m \<Longrightarrow>
   int (length (predict m e)) = min (reduced_embedding_size m) (int (length e))"
proof -
  assume k: "0 \<le> reduced_embedding_size m"
  then have "length (predict m e) = min (length e) (nat (reduced_embedding_size m))"
    by (simp add: predict_nonneg)
  with k show ?thesis by linarith
qed

text \<open>Stored size 3 on five elements: the output has three.\<close>

theorem predict_length_nonneg_witness:
  "0 \<le> reduced_embedding_size (init 3) \<and>
   int (length (predict (init 3) [1, 2, 3, 4, 5::real]))
     = min (reduced_embedding_size (init 3)) (int (length [1, 2, 3, 4, 5::real]))"
  using predict_length_nonneg [of "init 3" "[1, 2, 3, 4, 5::real]"]
  by (simp add: init_def)

text \<open>
  Stored size \<open>-1\<close> on three elements: the output is the first two elements, of length 2,
  where the minimum is \<open>-1\<close>.
\<close>

theorem predict_length_min_counterexample:
  "int (length (predict (init (- 1)) [1, 2, 3::real]))
     \<noteq> min (reduced_embedding_size (init (- 1))) (int (length [1, 2, 3::real]))"
  by (simp add: predict_slice slice_to_def slice_stop_def init_def)

subsection \<open>Elements of the output\<close>

text \<open>
  C2: for every embedding and every index \<open>i\<close> below the minimum of the stored size and
  the length of the input, \<open>i\<close> is an index of the output and the output's element there
  is the input's element there, so the order is kept. The index is a position counted from
  0, a natural number.
\<close>

theorem predict_elements:
  "int i < min (reduced_embedding_size m) (int (length e)) \<Longrightarrow>
   i < length (predict m e) \<and> predict m e ! i = e ! i"
proof -
  assume h: "int i < min (reduced_embedding_size m) (int (length e))"
  then have k: "0 \<le> reduced_embedding_size m"
    and ik: "i < nat (reduced_embedding_size m)"
    and il: "i < length e"
    by linarith+
  from k have p: "predict m e = take (nat (reduced_embedding_size m)) e"
    by (rule predict_nonneg)
  from ik il show ?thesis
    by (simp add: p)
qed

theorem predict_elements_witness:
  "int 1 < min (reduced_embedding_size (init 3)) (int (length [10, 20, 30, 40, 50::real])) \<and>
   (1::nat) < length (predict (init 3) [10, 20, 30, 40, 50::real]) \<and>
   predict (init 3) [10, 20, 30, 40, 50::real] ! 1 = [10, 20, 30, 40, 50::real] ! 1"
  using predict_elements [of 1 "init 3" "[10, 20, 30, 40, 50::real]"]
  by (simp add: init_def)

subsection \<open>dispose\<close>

text \<open>
  C3: calling \<open>dispose\<close> on a constructed instance should succeed. The source declares
  \<open>dispose\<close> with no parameter, unlike \<open>build\<close>, so the call on an instance, which
  passes the instance, raises \<open>TypeError\<close> before the body runs; here on the instance
  constructed with size 3.
\<close>

theorem dispose_on_instance_raises:
  "invoke (init 3) (Dispose :: real call) = (init 3, Inl TypeError)"
  by (simp add: invoke_def)

subsection \<open>Construction\<close>

text \<open>
  C4: for every integer, zero and the negative ones too, construction completes without
  an error and the new instance stores that integer; nothing is validated.
\<close>

theorem instantiate_stores:
  "instantiate n = Inr (init n) \<and> reduced_embedding_size (init n) = n \<and>
   instantiate 0 = Inr \<lparr>reduced_embedding_size = 0\<rparr> \<and>
   instantiate (- 5) = Inr \<lparr>reduced_embedding_size = - 5\<rparr>"
  by (simp add: instantiate_def init_def init_params_def base_abstract_methods_def
      class_methods_def)

subsection \<open>Short inputs\<close>

text \<open>
  C5: for every embedding whose length is at most the stored size, \<open>predict\<close> returns
  the whole input, with no padding, and the call raises nothing.
\<close>

theorem predict_short_input:
  "int (length e) \<le> reduced_embedding_size m \<Longrightarrow>
   predict m e = e \<and> invoke m (Predict e) = (m, Inr (Array e))"
proof -
  assume h: "int (length e) \<le> reduced_embedding_size m"
  then have k: "0 \<le> reduced_embedding_size m"
    and l: "length e \<le> nat (reduced_embedding_size m)"
    by linarith+
  from l have "predict m e = e"
    by (simp add: predict_nonneg [OF k])
  then show ?thesis
    by (simp add: invoke_Predict)
qed

text \<open>The spec's scenario: stored size 10, input of the two elements 1.0 and 2.0.\<close>

theorem predict_short_input_witness:
  "int (length [1, 2::real]) \<le> reduced_embedding_size (init 10) \<and>
   predict (init 10) [1, 2::real] = [1, 2] \<and>
   invoke (init 10) (Predict [1, 2::real]) = (init 10, Inr (Array [1, 2]))"
  using predict_short_input [of "[1, 2::real]" "init 10"]
  by (simp add: init_def)

subsection \<open>Purity of predict\<close>

text \<open>
  C6: \<open>predict\<close> never changes its input argument (nor the instance), and its output
  is a function of the input and the stored size alone: instances with the same stored
  size give the same output on the same input, and a \<open>predict\<close> call anywhere in a
  sequence of calls returns what it returns on the fresh instance, so two calls with
  equal inputs return equal outputs.
\<close>

theorem predict_pure:
  "fst (predict_frame m e) = (m, e) \<and>
   (reduced_embedding_size m1 = reduced_embedding_size m2 \<longrightarrow> predict m1 e = predict m2 e) \<and>
   (i < length cs \<and> cs ! i = Predict e \<longrightarrow> snd (run m cs) ! i = Inr (Array (predict m e)))"
proof (intro conjI impI)
  show "fst (predict_frame m e) = (m, e)"
    by (simp add: predict_frame_def)
next
  assume "reduced_embedding_size m1 = reduced_embedding_size m2"
  then show "predict m1 e = predict m2 e"
    by (simp add: predict_slice)
next
  assume h: "i < length cs \<and> cs ! i = Predict e"
  then have "snd (run m cs) ! i = snd (invoke m (cs ! i))"
    by (simp add: run_results)
  with h show "snd (run m cs) ! i = Inr (Array (predict m e))"
    by (simp add: invoke_Predict)
qed

text \<open>
  Two instances built with size 3, and the same input given twice to one of them with a
  \<open>build\<close> in between: the third call returns the first three elements, as the first.
\<close>

theorem predict_pure_witness:
  "reduced_embedding_size (init 3) = reduced_embedding_size (init 3) \<and>
   (2::nat) < length [Predict [1, 2, 3, 4::real], Build, Predict [1, 2, 3, 4]] \<and>
   [Predict [1, 2, 3, 4::real], Build, Predict [1, 2, 3, 4]] ! 2 = Predict [1, 2, 3, 4] \<and>
   fst (predict_frame (init 3) [1, 2, 3, 4::real]) = (init 3, [1, 2, 3, 4]) \<and>
   snd (run (init 3) [Predict [1, 2, 3, 4::real], Build, Predict [1, 2, 3, 4]]) ! 2
     = Inr (Array [1, 2, 3]) \<and>
   snd (run (init 3) [Predict [1, 2, 3, 4::real], Build, Predict [1, 2, 3, 4]]) ! 0
     = Inr (Array [1, 2, 3])"
  using predict_pure [of "init 3" "[1, 2, 3, 4::real]" "init 3" "init 3" 2
      "[Predict [1, 2, 3, 4::real], Build, Predict [1, 2, 3, 4]]"]
    predict_pure [of "init 3" "[1, 2, 3, 4::real]" "init 3" "init 3" 0
      "[Predict [1, 2, 3, 4::real], Build, Predict [1, 2, 3, 4]]"]
  by (simp add: init_def predict_slice slice_to_def slice_stop_def)

subsection \<open>build\<close>

text \<open>
  C7: \<open>build\<close> does nothing and always succeeds: one call returns \<open>None\<close> and leaves
  the instance as it was, and so does any number of calls; after any sequence of calls the
  instance is unchanged and \<open>predict\<close> gives the same outcome as before it; and the
  outcomes of the other calls of a sequence are those of the sequence with every
  \<open>build\<close> taken out.
\<close>

theorem build_noop:
  "invoke m Build = (m, Inr NoneV) \<and>
   (build ^^ n) m = m \<and>
   fst (run m cs) = m \<and>
   invoke (fst (run m cs)) (Predict e) = invoke m (Predict e) \<and>
   map snd (filter (\<lambda>(c, r). \<not> is_build c) (zip cs (snd (run m cs))))
     = snd (run m (filter (\<lambda>c. \<not> is_build c) cs))"
  by (simp add: invoke_Build build_funpow run_state run_results zip_map_filter)

subsection \<open>The object state\<close>

text \<open>
  C8: the stored size is set at construction and no operation changes it: \<open>build\<close>,
  \<open>predict\<close>, \<open>dispose\<close> (which raises on an instance) and any sequence of them leave
  the whole instance as it was, and the instance has no state besides this one field.
\<close>

theorem state_preserved:
  "reduced_embedding_size (init n) = n \<and>
   build m = m \<and>
   fst (fst (predict_frame m e)) = m \<and>
   fst (invoke m c) = m \<and>
   fst (run m cs) = m \<and>
   m = \<lparr>reduced_embedding_size = reduced_embedding_size m\<rparr>"
  by (simp add: init_def build_def predict_frame_def invoke_state run_state)

subsection \<open>Negative stored size\<close>

text \<open>
  C9: when the stored size is negative, \<open>predict\<close> returns the prefix of length
  \<open>max 0 (length + size)\<close>, that is the input without its last \<open>|size|\<close> elements,
  and the call raises nothing.
\<close>

theorem predict_negative:
  "reduced_embedding_size m < 0 \<Longrightarrow>
   predict m e = take (nat (max 0 (int (length e) + reduced_embedding_size m))) e \<and>
   int (length (predict m e)) = max 0 (int (length e) + reduced_embedding_size m) \<and>
   predict m e = rev (drop (nat (- reduced_embedding_size m)) (rev e)) \<and>
   invoke m (Predict e) = (m, Inr (Array (predict m e)))"
proof -
  assume k: "reduced_embedding_size m < 0"
  have p: "predict m e = take (nat (max 0 (int (length e) + reduced_embedding_size m))) e"
    using k by (rule predict_neg)
  have n: "nat (max 0 (int (length e) + reduced_embedding_size m))
        = length e - nat (- reduced_embedding_size m)"
    using k by linarith
  have l: "int (length (predict m e)) = max 0 (int (length e) + reduced_embedding_size m)"
    using k by (simp add: p)
  have d: "predict m e = rev (drop (nat (- reduced_embedding_size m)) (rev e))"
    by (simp add: p n rev_drop_rev)
  from p l d show ?thesis
    by (simp add: invoke_Predict)
qed

text \<open>Stored size \<open>-2\<close> on five elements leaves the first three.\<close>

theorem predict_negative_witness:
  "reduced_embedding_size (init (- 2)) < 0 \<and>
   predict (init (- 2)) [1, 2, 3, 4, 5::real] = [1, 2, 3] \<and>
   int (length (predict (init (- 2)) [1, 2, 3, 4, 5::real])) = 3"
  using predict_negative [of "init (- 2)" "[1, 2, 3, 4, 5::real]"]
  by (simp add: init_def)

subsection \<open>Idempotence\<close>

text \<open>
  C10: for a non-negative stored size \<open>predict\<close> is idempotent: applying it to its own
  output gives that output again.
\<close>

theorem predict_idempotent:
  "0 \<le> reduced_embedding_size m \<Longrightarrow> predict m (predict m e) = predict m e"
  by (simp add: predict_nonneg)

theorem predict_idempotent_witness:
  "0 \<le> reduced_embedding_size (init 2) \<and>
   predict (init 2) (predict (init 2) [1, 2, 3::real]) = predict (init 2) [1, 2, 3] \<and>
   predict (init 2) [1, 2, 3::real] = [1, 2]"
  using predict_idempotent [of "init 2" "[1, 2, 3::real]"]
  by (simp add: init_def predict_slice slice_to_def slice_stop_def)

end
